theory Spec2Isabelle
  imports Main
begin

section \<open>Python values, exceptions and strings\<close>

text \<open>
  The repository is two Python modules, \<^verbatim>\<open>app.py\<close> and \<^verbatim>\<open>vectordb.py\<close>, that glue
  together four external libraries (a text splitter, a sentence-embedding model, the
  ChromaDB vector store and a hosted chat model). The embedding follows the modules
  function by function. Whatever an external library computes is a parameter of the
  model (records \<open>libs\<close> and \<open>filesystem\<close> below); everything the two modules do
  themselves is written out.

  An exception is a value of type \<open>error\<close>. The constructors name the exceptions the
  modules or the Python runtime raise themselves; \<open>External\<close> is any exception raised
  inside an external library or by the operating system, with its message. The modules
  never dispatch on the class of an exception (the only handlers are
  \<^verbatim>\<open>except Exception\<close>), so the origin and the message are all that is observable.
\<close>

datatype error =
    AttributeError string
  | TypeError string
  | ValueError string
  | KeyError string
  | EOFError
  | External string

text \<open>A string between single quotes, as Python messages show names.\<close>

definition quoted :: "string \<Rightarrow> string" where
  "quoted s = [CHR 0x27] @ s @ [CHR 0x27]"

text \<open>\<^verbatim>\<open>str(e)\<close>, as the f-strings \<^verbatim>\<open>{e}\<close> of the source print it.\<close>

fun err_str :: "error \<Rightarrow> string" where
  "err_str (AttributeError m) = m"
| "err_str (TypeError m) = m"
| "err_str (ValueError m) = m"
| "err_str (KeyError k) = quoted k"
| "err_str EOFError = ''EOF when reading a line''"
| "err_str (External m) = m"

text \<open>
  A result of an external call is a message (the call raised) or a value; \<open>ext\<close> turns
  it into a result of the model.
\<close>

definition ext :: "string + 'a \<Rightarrow> error + 'a" where
  "ext r = (case r of Inl m \<Rightarrow> Inl (External m) | Inr x \<Rightarrow> Inr x)"

text \<open>
  Python values, as far as the modules handle them dynamically: the elements of
  \<^verbatim>\<open>documents\<close> (typed only \<^verbatim>\<open>List\<close>), metadata, and the dictionary a store query
  returns. A dictionary is an association list (the first binding of a key counts).
  \<open>PLib\<close> holds a value only the libraries produce and consume (a floating-point
  number, an embedding vector); the modules never look inside one, and a message that
  names its type says \<open>object\<close>.
\<close>

datatype 'v pyval =
    PNone
  | PStr string
  | PList "'v pyval list"
  | PDict "(string \<times> 'v pyval) list"
  | PLib 'v

type_synonym 'v pydict = "(string \<times> 'v pyval) list"

fun type_name :: "'v pyval \<Rightarrow> string" where
  "type_name PNone = ''NoneType''"
| "type_name (PStr s) = ''str''"
| "type_name (PList xs) = ''list''"
| "type_name (PDict kvs) = ''dict''"
| "type_name (PLib v) = ''object''"

text \<open>
  \<^verbatim>\<open>x.get(key, default)\<close>: defined on dictionaries only; on any other value the attribute
  lookup itself raises AttributeError.
\<close>

definition no_attribute :: "string \<Rightarrow> string \<Rightarrow> error" where
  "no_attribute tname attr =
     AttributeError (quoted tname @ '' object has no attribute '' @ quoted attr)"

fun py_get :: "'v pyval \<Rightarrow> string \<Rightarrow> 'v pyval \<Rightarrow> error + 'v pyval" where
  "py_get (PDict kvs) key dflt = Inr (case map_of kvs key of None \<Rightarrow> dflt | Some v \<Rightarrow> v)"
| "py_get x key dflt = Inl (no_attribute (type_name x) ''get'')"

definition dict_get :: "'v pydict \<Rightarrow> string \<Rightarrow> 'v pyval \<Rightarrow> 'v pyval" where
  "dict_get d key dflt = (case map_of d key of None \<Rightarrow> dflt | Some v \<Rightarrow> v)"

text \<open>
  Strings are lists of characters. \<^verbatim>\<open>str.lower()\<close> is modelled on ASCII letters; the
  modules compare lowered strings only with \<^verbatim>\<open>quit\<close>, \<^verbatim>\<open>txt\<close>, \<^verbatim>\<open>pdf\<close>, \<^verbatim>\<open>doc\<close> and
  \<^verbatim>\<open>docx\<close>.
\<close>

definition lower_char :: "char \<Rightarrow> char" where
  "lower_char c =
     (case map_of (zip ''ABCDEFGHIJKLMNOPQRSTUVWXYZ'' ''abcdefghijklmnopqrstuvwxyz'') c of
        None \<Rightarrow> c
      | Some l \<Rightarrow> l)"

definition lower :: "string \<Rightarrow> string" where
  "lower s = map lower_char s"

text \<open>\<^verbatim>\<open>s.split(sep)\<close> for a one-character separator: never the empty list.\<close>

fun split_on :: "char \<Rightarrow> string \<Rightarrow> string list" where
  "split_on sep [] = [[]]"
| "split_on sep (c # cs) =
     (if c = sep then [] # split_on sep cs
      else (case split_on sep cs of
              [] \<Rightarrow> [[c]]
            | seg # segs \<Rightarrow> (c # seg) # segs))"

text \<open>\<^verbatim>\<open>sep.join(xs)\<close> on a list of strings.\<close>

fun join_str :: "string \<Rightarrow> string list \<Rightarrow> string" where
  "join_str sep [] = []"
| "join_str sep [x] = x"
| "join_str sep (x # y # ys) = x @ sep @ join_str sep (y # ys)"

text \<open>
  \<^verbatim>\<open>sep.join(x)\<close> on an arbitrary value: a list must hold strings only, a string is
  iterated character by character, a dictionary by its keys; anything else is not
  iterable.
\<close>

fun the_strs :: "'v pyval list \<Rightarrow> string list option" where
  "the_strs [] = Some []"
| "the_strs (PStr s # xs) = (case the_strs xs of None \<Rightarrow> None | Some ss \<Rightarrow> Some (s # ss))"
| "the_strs (x # xs) = None"

fun py_join :: "string \<Rightarrow> 'v pyval \<Rightarrow> error + string" where
  "py_join sep (PList xs) =
     (case the_strs xs of
        None \<Rightarrow> Inl (TypeError ''sequence item: expected str instance'')
      | Some ss \<Rightarrow> Inr (join_str sep ss))"
| "py_join sep (PStr s) = Inr (join_str sep (map (\<lambda>c. [c]) s))"
| "py_join sep (PDict kvs) = Inr (join_str sep (remdups (map fst kvs)))"
| "py_join sep x = Inl (TypeError ''can only join an iterable'')"

text \<open>Decimal rendering of a non-negative integer, as an f-string \<^verbatim>\<open>{n}\<close> prints it.\<close>

definition digit_char :: "nat \<Rightarrow> char" where
  "digit_char d = ''0123456789'' ! d"

fun str_of_nat :: "nat \<Rightarrow> string" where
  "str_of_nat n =
     (if n < 10 then [digit_char n]
      else str_of_nat (n div 10) @ [digit_char (n mod 10)])"

declare str_of_nat.simps [simp del]

text \<open>
  \<^verbatim>\<open>template.format(**vars)\<close> for a template whose only special syntax is the
  replacement field \<^verbatim>\<open>{name}\<close>. The second argument is the field name being read
  (\<open>None\<close> outside a field).
\<close>

fun py_format :: "(string \<times> string) list \<Rightarrow> string option \<Rightarrow> string \<Rightarrow> error + string" where
  "py_format vars None [] = Inr []"
| "py_format vars (Some name) [] = Inl (ValueError ''expected } before end of string'')"
| "py_format vars None (c # cs) =
     (if c = CHR ''{'' then py_format vars (Some []) cs
      else if c = CHR ''}'' then Inl (ValueError ''single } encountered in format string'')
      else (case py_format vars None cs of Inl e \<Rightarrow> Inl e | Inr s \<Rightarrow> Inr (c # s)))"
| "py_format vars (Some name) (c # cs) =
     (if c = CHR ''}'' then
        (case map_of vars name of
           None \<Rightarrow> Inl (KeyError name)
         | Some v \<Rightarrow> (case py_format vars None cs of Inl e \<Rightarrow> Inl e | Inr s \<Rightarrow> Inr (v @ s)))
      else py_format vars (Some (name @ [c])) cs)"

section \<open>The outside world\<close>

text \<open>
  The process environment (\<^verbatim>\<open>os.getenv\<close>): a variable is unset (\<open>None\<close>) or has a
  value. A value is truthy when it is a non-empty string.
\<close>

type_synonym environ = "string \<Rightarrow> string option"

definition getenv_default :: "environ \<Rightarrow> string \<Rightarrow> string \<Rightarrow> string" where
  "getenv_default env name dflt = (case env name of None \<Rightarrow> dflt | Some v \<Rightarrow> v)"

definition truthy :: "string option \<Rightarrow> bool" where
  "truthy v = (case v of None \<Rightarrow> False | Some s \<Rightarrow> s \<noteq> [])"

text \<open>\<^verbatim>\<open>a or b\<close> for an optional string \<open>a\<close>.\<close>

definition py_or :: "string option \<Rightarrow> string \<Rightarrow> string" where
  "py_or a b = (case a of None \<Rightarrow> b | Some s \<Rightarrow> if s \<noteq> [] then s else b)"

text \<open>
  One call of \<^verbatim>\<open>collection.add\<close>: the four keyword arguments. \<open>embeddings\<close> is what
  \<^verbatim>\<open>encode(chunks).tolist()\<close> evaluated to.
\<close>

record 'v add_request =
  documents :: "string list"
  metadatas :: "'v pyval list"
  embeddings :: 'v
  ids :: "string list"

text \<open>
  The mutable world: the persistent collections, by name, and standard output. A
  collection is represented by the \<^verbatim>\<open>add\<close> calls it has accepted, oldest first; what
  the store makes of them (its index, what happens to a repeated ID, which records are
  nearest to a query) is left to the parameters \<open>collection_add\<close> and
  \<open>collection_query\<close>. \<open>out\<close> is the sequence of texts written, one entry for each
  \<^verbatim>\<open>print\<close> call or \<^verbatim>\<open>input\<close> prompt.
\<close>

record 'v world =
  colls :: "string \<Rightarrow> 'v add_request list"
  out :: "string list"

definition py_print :: "string \<Rightarrow> 'v world \<Rightarrow> 'v world" where
  "py_print s w = w\<lparr>out := out w @ [s]\<rparr>"

text \<open>The chat-model client an assistant holds: the arguments it was constructed with.\<close>

datatype provider = OpenAI | Groq | Google | Perplexity

record llm_client =
  provider :: provider
  api_key :: "string option"
  model :: string
  temperature :: int

text \<open>
  The external libraries. Each field is the library call of the same name; a call that
  can raise returns a sum.
  \<^item> \<open>split_text size overlap text\<close>:
    \<^verbatim>\<open>RecursiveCharacterTextSplitter(chunk_size=size, chunk_overlap=overlap).split_text(text)\<close>;
  \<^item> \<open>sentence_transformer name\<close>: loading the embedding model \<open>name\<close>;
  \<^item> \<open>encode name texts\<close>: \<^verbatim>\<open>encode(texts)\<close> of the model \<open>name\<close>, after \<^verbatim>\<open>tolist()\<close>;
  \<^item> \<open>persistent_client path\<close>, \<open>get_or_create_collection name\<close>: opening the store;
  \<^item> \<open>collection_add name accepted request\<close>: \<^verbatim>\<open>collection.add\<close> on the collection
    \<open>name\<close> that has accepted the calls \<open>accepted\<close>;
  \<^item> \<open>collection_query name accepted query_embeddings n include\<close>: \<^verbatim>\<open>collection.query\<close>,
    returning \<^verbatim>\<open>None\<close> or a dictionary;
  \<^item> \<open>chat_model client\<close>: constructing the client of the chat model
    (\<^verbatim>\<open>ChatOpenAI\<close>, \<^verbatim>\<open>ChatGroq\<close>, \<^verbatim>\<open>ChatGoogleGenerativeAI\<close> or \<^verbatim>\<open>ChatPerplexity\<close>)
    from the given arguments;
  \<^item> \<open>llm_chat client prompt\<close>: the text \<^verbatim>\<open>StrOutputParser\<close> extracts from the reply
    of the chat model to one human message \<open>prompt\<close>.
\<close>

record 'v libs =
  split_text :: "int \<Rightarrow> int \<Rightarrow> 'v pyval \<Rightarrow> string + string list"
  sentence_transformer :: "string \<Rightarrow> string + unit"
  encode :: "string \<Rightarrow> string list \<Rightarrow> string + 'v"
  persistent_client :: "string \<Rightarrow> string + unit"
  get_or_create_collection :: "string \<Rightarrow> string + unit"
  collection_add :: "string \<Rightarrow> 'v add_request list \<Rightarrow> 'v add_request \<Rightarrow> string + unit"
  collection_query ::
    "string \<Rightarrow> 'v add_request list \<Rightarrow> 'v \<Rightarrow> int \<Rightarrow> string list \<Rightarrow> string + 'v pydict option"
  chat_model :: "llm_client \<Rightarrow> string + unit"
  llm_chat :: "llm_client \<Rightarrow> string \<Rightarrow> string + string"

text \<open>
  The file system, as \<^verbatim>\<open>load_documents\<close> reads it. \<open>pdf_page_texts path\<close> is
  \<^verbatim>\<open>fitz.open(path)\<close> followed by \<^verbatim>\<open>get_text()\<close> on every page in order, and
  \<open>docx_paragraphs path\<close> is \<^verbatim>\<open>DocxDocument(path)\<close> followed by the \<^verbatim>\<open>text\<close> of every
  paragraph; a failure at any point of either is one failure, since the source catches
  them in one handler before anything is appended.
\<close>

record filesystem =
  listdir :: "string \<Rightarrow> string + string list"
  isfile :: "string \<Rightarrow> bool"
  read_text :: "string \<Rightarrow> string + string"
  pdf_page_texts :: "string \<Rightarrow> string + string list"
  docx_paragraphs :: "string \<Rightarrow> string + string list"

text \<open>\<^verbatim>\<open>os.path.join(a, b)\<close> on a POSIX system.\<close>

definition path_join :: "string \<Rightarrow> string \<Rightarrow> string" where
  "path_join a b =
     (if b \<noteq> [] \<and> hd b = CHR ''/'' then b
      else if a = [] \<or> last a = CHR ''/'' then a @ b
      else a @ ''/'' @ b)"

section \<open>vectordb.py\<close>

text \<open>
  A \<^verbatim>\<open>VectorDB\<close> object: the two names it was constructed with. Its ChromaDB client,
  embedding model and collection handle are determined by them; the contents of the
  collection live in the world.
\<close>

record vectordb =
  collection_name :: string
  embedding_model_name :: string

text \<open>\<^verbatim>\<open>VectorDB.__init__(self, collection_name=None, embedding_model=None)\<close>\<close>

definition VectorDB_init ::
  "environ \<Rightarrow> 'v libs \<Rightarrow> string option \<Rightarrow> string option \<Rightarrow> 'v world \<Rightarrow> (error + vectordb) \<times> 'v world"
where
  "VectorDB_init env L collection_name_arg embedding_model_arg w =
     (let cname = py_or collection_name_arg
                    (getenv_default env ''CHROMA_COLLECTION_NAME'' ''rag_documents'');
          mname = py_or embedding_model_arg
                    (getenv_default env ''EMBEDDING_MODEL'' ''sentence-transformers/all-MiniLM-L6-v2'')
      in case ext (persistent_client L ''./chroma_db'') of
           Inl e \<Rightarrow> (Inl e, w)
         | Inr u \<Rightarrow>
             (let w1 = py_print (''Loading embedding model: '' @ mname) w
              in case ext (sentence_transformer L mname) of
                   Inl e \<Rightarrow> (Inl e, w1)
                 | Inr u \<Rightarrow>
                     (case ext (get_or_create_collection L cname) of
                        Inl e \<Rightarrow> (Inl e, w1)
                      | Inr u \<Rightarrow>
                          (Inr \<lparr>collection_name = cname, embedding_model_name = mname\<rparr>,
                           py_print (''Vector database initialized with collection: '' @ cname) w1))))"

text \<open>
  \<^verbatim>\<open>VectorDB.chunk_text(self, text, chunk_size=500, overlap=50)\<close>: a fresh splitter is
  built from the two numbers on every call and applied to the text.
\<close>

definition chunk_text ::
  "'v libs \<Rightarrow> vectordb \<Rightarrow> 'v pyval \<Rightarrow> int \<Rightarrow> int \<Rightarrow> 'v world \<Rightarrow> (error + string list) \<times> 'v world"
where
  "chunk_text L self text chunk_size overlap w = (ext (split_text L chunk_size overlap text), w)"

text \<open>The f-string \<^verbatim>\<open>doc_{doc_id}_chunk_{i}\<close>.\<close>

definition chunk_id :: "nat \<Rightarrow> nat \<Rightarrow> string" where
  "chunk_id doc_id i = ''doc_'' @ str_of_nat doc_id @ ''_chunk_'' @ str_of_nat i"

text \<open>
  \<^verbatim>\<open>VectorDB.add_documents(self, documents)\<close>: the body of the loop over
  \<^verbatim>\<open>enumerate(documents)\<close>, the loop, then the function. An exception leaves the world as it was
  when it was raised: the batches of the documents before it stay in the collection.
\<close>

definition add_documents_body ::
  "'v libs \<Rightarrow> vectordb \<Rightarrow> nat \<Rightarrow> 'v pyval \<Rightarrow> 'v world \<Rightarrow> (error + unit) \<times> 'v world"
where
  "add_documents_body L self doc_id doc w =
     (case py_get doc ''content'' (PStr []) of
        Inl e \<Rightarrow> (Inl e, w)
      | Inr content \<Rightarrow>
     (case py_get doc ''metadata'' (PDict []) of
        Inl e \<Rightarrow> (Inl e, w)
      | Inr metadata \<Rightarrow>
     (case chunk_text L self content 500 50 w of
        (Inl e, w1) \<Rightarrow> (Inl e, w1)
      | (Inr chunks, w1) \<Rightarrow>
     (let w2 = py_print (''Document '' @ str_of_nat doc_id @ '': Split into '' @
                         str_of_nat (length chunks) @ '' chunks'') w1;
          chunk_ids = map (chunk_id doc_id) [0..<length chunks]
      in case ext (encode L (embedding_model_name self) chunks) of
           Inl e \<Rightarrow> (Inl e, w2)
         | Inr vectors \<Rightarrow>
     (let request = \<lparr>documents = chunks,
                     metadatas = replicate (length chunks) metadata,
                     embeddings = vectors,
                     ids = chunk_ids\<rparr>;
          name = collection_name self
      in case ext (collection_add L name (colls w2 name) request) of
           Inl e \<Rightarrow> (Inl e, w2)
         | Inr u \<Rightarrow>
             (Inr (), w2\<lparr>colls := (colls w2)(name := colls w2 name @ [request])\<rparr>))))))"

fun add_documents_loop ::
  "'v libs \<Rightarrow> vectordb \<Rightarrow> nat \<Rightarrow> 'v pyval list \<Rightarrow> 'v world \<Rightarrow> (error + unit) \<times> 'v world"
where
  "add_documents_loop L self doc_id [] w = (Inr (), w)"
| "add_documents_loop L self doc_id (doc # rest) w =
     (case add_documents_body L self doc_id doc w of
        (Inl e, w1) \<Rightarrow> (Inl e, w1)
      | (Inr u, w1) \<Rightarrow> add_documents_loop L self (Suc doc_id) rest w1)"

definition add_documents ::
  "'v libs \<Rightarrow> vectordb \<Rightarrow> 'v pyval list \<Rightarrow> 'v world \<Rightarrow> (error + unit) \<times> 'v world"
where
  "add_documents L self docs w =
     (case add_documents_loop L self 0 docs
             (py_print (''Processing '' @ str_of_nat (length docs) @ '' documents...'') w) of
        (Inl e, w1) \<Rightarrow> (Inl e, w1)
      | (Inr u, w1) \<Rightarrow> (Inr (), py_print ''Documents added to vector database'' w1))"

text \<open>
  \<^verbatim>\<open>VectorDB.search(self, query, n_results=5)\<close>. The result of the store is returned as
  it is when it is truthy (neither \<^verbatim>\<open>None\<close> nor the empty dictionary) and has the four
  keys; otherwise the dictionary of four empty lists is returned.
\<close>

definition result_keys :: "string list" where
  "result_keys = [''documents'', ''metadatas'', ''distances'', ''ids'']"

definition empty_results :: "'v pydict" where
  "empty_results =
     [(''documents'', PList []), (''metadatas'', PList []),
      (''distances'', PList []), (''ids'', PList [])]"

definition search ::
  "'v libs \<Rightarrow> vectordb \<Rightarrow> string \<Rightarrow> int \<Rightarrow> 'v world \<Rightarrow> (error + 'v pydict) \<times> 'v world"
where
  "search L self query n_results w =
     (case ext (encode L (embedding_model_name self) [query]) of
        Inl e \<Rightarrow> (Inl e, w)
      | Inr query_embedding \<Rightarrow>
          (case ext (collection_query L (collection_name self) (colls w (collection_name self))
                       query_embedding n_results
                       [''documents'', ''metadatas'', ''distances'', ''ids'']) of
             Inl e \<Rightarrow> (Inl e, w)
           | Inr None \<Rightarrow> (Inr empty_results, w)
           | Inr (Some results) \<Rightarrow>
               if results \<noteq> [] \<and> list_all (\<lambda>key. key \<in> set (map fst results)) result_keys
               then (Inr results, w)
               else (Inr empty_results, w)))"

section \<open>app.py\<close>

text \<open>
  \<^verbatim>\<open>load_documents(data_dir="data")\<close>: the body of the loop over
  \<^verbatim>\<open>os.listdir(data_dir)\<close>, the loop, then the function. \<^verbatim>\<open>os.listdir\<close> is called outside the \<^verbatim>\<open>try\<close> block, so its failure is the
  only exception that leaves the function.
\<close>

definition error_loading :: "string \<Rightarrow> error \<Rightarrow> 'v world \<Rightarrow> 'v world" where
  "error_loading filename e w = py_print (''Error loading '' @ filename @ '': '' @ err_str e) w"

definition load_documents_body ::
  "filesystem \<Rightarrow> string \<Rightarrow> string \<Rightarrow> string list \<Rightarrow> 'v world \<Rightarrow> string list \<times> 'v world"
where
  "load_documents_body F data_dir filename results w =
     (let filepath = path_join data_dir filename in
      if isfile F filepath then
        (let extension = last (split_on CHR ''.'' (lower filename)) in
         if extension = ''txt'' then
           (case ext (read_text F filepath) of
              Inl e \<Rightarrow> (results, error_loading filename e w)
            | Inr text \<Rightarrow> (results @ [text], w))
         else if extension = ''pdf'' then
           (case ext (pdf_page_texts F filepath) of
              Inl e \<Rightarrow> (results, error_loading filename e w)
            | Inr pages \<Rightarrow> (results @ [foldl (@) [] pages], w))
         else if extension \<in> set [''doc'', ''docx''] then
           (case ext (docx_paragraphs F filepath) of
              Inl e \<Rightarrow> (results, error_loading filename e w)
            | Inr paragraphs \<Rightarrow> (results @ [join_str ''\<newline>'' paragraphs], w))
         else (results, py_print (''Unsupported file type skipped: '' @ filename) w))
      else (results, w))"

fun load_documents_loop ::
  "filesystem \<Rightarrow> string \<Rightarrow> string list \<Rightarrow> string list \<Rightarrow> 'v world \<Rightarrow> string list \<times> 'v world"
where
  "load_documents_loop F data_dir [] results w = (results, w)"
| "load_documents_loop F data_dir (filename # rest) results w =
     (case load_documents_body F data_dir filename results w of
        (results1, w1) \<Rightarrow> load_documents_loop F data_dir rest results1 w1)"

definition load_documents ::
  "filesystem \<Rightarrow> string \<Rightarrow> 'v world \<Rightarrow> (error + string list) \<times> 'v world"
where
  "load_documents F data_dir w =
     (case ext (listdir F data_dir) of
        Inl e \<Rightarrow> (Inl e, w)
      | Inr filenames \<Rightarrow>
          (case load_documents_loop F data_dir filenames [] w of
             (results, w1) \<Rightarrow> (Inr results, w1)))"

text \<open>
  A \<^verbatim>\<open>RAGAssistant\<close> object: its chat-model client and its vector database. The prompt
  template is the same for every assistant, and the chain is the template, the client
  and the output parser in sequence. No method assigns to an attribute after
  \<^verbatim>\<open>__init__\<close>, so an assistant is a value.
\<close>

record rag_assistant =
  llm :: llm_client
  vector_db :: vectordb

definition no_key_message :: string where
  "no_key_message =
     ''No valid API key found. Please set one of: '' @
     ''OPENAI_API_KEY, GROQ_API_KEY, or GOOGLE_API_KEY in your .env file''"

text \<open>
  \<^verbatim>\<open>RAGAssistant._initialize_llm(self)\<close>. \<open>new_client\<close> is the \<^verbatim>\<open>return\<close> statement of a
  branch: the client is constructed and returned.
\<close>

definition new_client :: "'v libs \<Rightarrow> llm_client \<Rightarrow> 'v world \<Rightarrow> (error + llm_client) \<times> 'v world" where
  "new_client L client w =
     (case ext (chat_model L client) of
        Inl e \<Rightarrow> (Inl e, w)
      | Inr u \<Rightarrow> (Inr client, w))"

definition initialize_llm ::
  "environ \<Rightarrow> 'v libs \<Rightarrow> 'v world \<Rightarrow> (error + llm_client) \<times> 'v world"
where
  "initialize_llm env L w =
     (if truthy (env ''OPENAI_API_KEY'') then
        (let model_name = getenv_default env ''OPENAI_MODEL'' ''gpt-4o-mini'' in
         new_client L
           \<lparr>provider = OpenAI, api_key = env ''OPENAI_API_KEY'',
            model = model_name, temperature = 0\<rparr>
           (py_print (''Using OpenAI model: '' @ model_name) w))
      else if truthy (env ''GROQ_API_KEY'') then
        (let model_name = getenv_default env ''GROQ_MODEL'' ''llama-3.1-8b-instant'' in
         new_client L
           \<lparr>provider = Groq, api_key = env ''GROQ_API_KEY'',
            model = model_name, temperature = 0\<rparr>
           (py_print (''Using Groq model: '' @ model_name) w))
      else if truthy (env ''GOOGLE_API_KEY'') then
        (let model_name = getenv_default env ''GOOGLE_MODEL'' ''gemini-2.0-flash'' in
         new_client L
           \<lparr>provider = Google, api_key = env ''GOOGLE_API_KEY'',
            model = model_name, temperature = 0\<rparr>
           (py_print (''Using Google Gemini model: '' @ model_name) w))
      else if truthy (env ''PPLX_API_KEY'') then
        (let model_name = getenv_default env ''PPLX_MODEL'' ''gemini-1.5-flash'' in
         new_client L
           \<lparr>provider = Perplexity, api_key = env ''PPLX_API_KEY'',
            model = model_name, temperature = 0\<rparr>
           (py_print (''Using Perplexity model: '' @ model_name) w))
      else (Inl (ValueError no_key_message), w))"

text \<open>
  \<^verbatim>\<open>RAGAssistant.__init__(self)\<close>. The test \<^verbatim>\<open>if not self.llm\<close> is on a client object,
  which is truthy.
\<close>

definition client_truthy :: "llm_client \<Rightarrow> bool" where
  "client_truthy c = True"

definition RAGAssistant_init ::
  "environ \<Rightarrow> 'v libs \<Rightarrow> 'v world \<Rightarrow> (error + rag_assistant) \<times> 'v world"
where
  "RAGAssistant_init env L w =
     (case initialize_llm env L w of
        (Inl e, w1) \<Rightarrow> (Inl e, w1)
      | (Inr client, w1) \<Rightarrow>
          if \<not> client_truthy client then (Inl (ValueError no_key_message), w1)
          else
            (case VectorDB_init env L None None w1 of
               (Inl e, w2) \<Rightarrow> (Inl e, w2)
             | (Inr db, w2) \<Rightarrow>
                 (Inr \<lparr>llm = client, vector_db = db\<rparr>,
                  py_print ''RAG Assistant initialized successfully'' w2)))"

definition prompt_template :: string where
  "prompt_template =
     ''\<newline>'' @
     ''            Use the following context to answer the user's question.\<newline>'' @
     ''            \<newline>'' @
     ''            Context: {context}\<newline>'' @
     ''\<newline>'' @
     ''            Question: {question}\<newline>'' @
     ''\<newline>'' @
     ''            Answer as clearly and concisely as possible, referring only to the given context.\<newline>'' @
     ''            ''"

text \<open>
  \<^verbatim>\<open>self.chain.invoke(vars)\<close>, the chain being
  \<^verbatim>\<open>prompt_template | llm | StrOutputParser()\<close>: the template is filled in, the result
  is sent to the chat model as one message, and the text of the reply is the value.
\<close>

definition chain_invoke :: "'v libs \<Rightarrow> rag_assistant \<Rightarrow> (string \<times> string) list \<Rightarrow> error + string" where
  "chain_invoke L self vars =
     (case py_format vars None prompt_template of
        Inl e \<Rightarrow> Inl e
      | Inr prompt \<Rightarrow> ext (llm_chat L (llm self) prompt))"

text \<open>\<^verbatim>\<open>RAGAssistant.add_documents(self, documents)\<close>\<close>

definition RAGAssistant_add_documents ::
  "'v libs \<Rightarrow> rag_assistant \<Rightarrow> 'v pyval list \<Rightarrow> 'v world \<Rightarrow> (error + unit) \<times> 'v world"
where
  "RAGAssistant_add_documents L self docs w = add_documents L (vector_db self) docs w"

text \<open>\<^verbatim>\<open>RAGAssistant.invoke(self, input, n_results=3)\<close>\<close>

definition invoke ::
  "'v libs \<Rightarrow> rag_assistant \<Rightarrow> string \<Rightarrow> int \<Rightarrow> 'v world \<Rightarrow> (error + string) \<times> 'v world"
where
  "invoke L self input n_results w =
     (case search L (vector_db self) input n_results w of
        (Inl e, w1) \<Rightarrow> (Inl e, w1)
      | (Inr search_results, w1) \<Rightarrow>
          (let context_chunks = dict_get search_results ''documents'' (PList []) in
           case py_join ''\<newline>'' context_chunks of
             Inl e \<Rightarrow> (Inl e, w1)
           | Inr context_str \<Rightarrow>
               (chain_invoke L self [(''context'', context_str), (''question'', input)], w1)))"

text \<open>
  The attributes of a \<^verbatim>\<open>RAGAssistant\<close> object: the four that \<^verbatim>\<open>__init__\<close> assigns and
  the four methods of the class (besides the attributes every Python object has, whose
  names begin and end with two underscores). \<open>call_method L self name arg\<close> is the
  expression \<^verbatim>\<open>self.<name>(arg)\<close> for a string \<open>arg\<close>, its value given as \<^verbatim>\<open>print\<close>
  shows it: the attribute is looked up first, and a name that is no attribute raises
  AttributeError. \<^verbatim>\<open>add_documents\<close> iterates over the characters of a string. The
  other two methods take no argument besides \<^verbatim>\<open>self\<close>, and the objects held in the
  four assigned attributes are taken not to be callable; \<^verbatim>\<open>main\<close> names none of these.
\<close>

definition RAGAssistant_attributes :: "string list" where
  "RAGAssistant_attributes =
     [''llm'', ''vector_db'', ''prompt_template'', ''chain'',
      ''__init__'', ''_initialize_llm'', ''add_documents'', ''invoke'']"

definition call_method ::
  "'v libs \<Rightarrow> rag_assistant \<Rightarrow> string \<Rightarrow> string \<Rightarrow> 'v world \<Rightarrow> (error + string) \<times> 'v world"
where
  "call_method L self name arg w =
     (if name \<notin> set RAGAssistant_attributes then (Inl (no_attribute ''RAGAssistant'' name), w)
      else if name = ''invoke'' then invoke L self arg 3 w
      else if name = ''add_documents'' then
        (case RAGAssistant_add_documents L self (map (\<lambda>c. PStr [c]) arg) w of
           (Inl e, w1) \<Rightarrow> (Inl e, w1)
         | (Inr u, w1) \<Rightarrow> (Inr ''None'', w1))
      else (Inl (TypeError (quoted name @ '' does not take one argument'')), w))"

text \<open>
  \<^verbatim>\<open>main()\<close>. Standard input is the list of lines still to be read; \<^verbatim>\<open>input\<close> writes its
  prompt and raises EOFError when no line is left. \<open>main_loop\<close> is the \<^verbatim>\<open>while\<close> loop,
  \<open>main_try\<close> the body of the \<^verbatim>\<open>try\<close> block and \<open>main\<close> the function with its handler.
\<close>

definition input_prompt :: string where
  "input_prompt = ''Enter a question or '' @ quoted ''quit'' @ '' to exit: ''"

fun main_loop ::
  "'v libs \<Rightarrow> rag_assistant \<Rightarrow> string list \<Rightarrow> 'v world \<Rightarrow> (error + unit) \<times> 'v world"
where
  "main_loop L assistant [] w = (Inl EOFError, py_print input_prompt w)"
| "main_loop L assistant (question # stdin) w =
     (let w1 = py_print input_prompt w in
      if lower question = ''quit'' then (Inr (), w1)
      else
        (case call_method L assistant ''query'' question w1 of
           (Inl e, w2) \<Rightarrow> (Inl e, w2)
         | (Inr result, w2) \<Rightarrow> main_loop L assistant stdin (py_print result w2)))"

definition main_try ::
  "environ \<Rightarrow> filesystem \<Rightarrow> 'v libs \<Rightarrow> string list \<Rightarrow> 'v world \<Rightarrow> (error + unit) \<times> 'v world"
where
  "main_try env F L stdin w =
     (case RAGAssistant_init env L (py_print ''Initializing RAG Assistant...'' w) of
        (Inl e, w1) \<Rightarrow> (Inl e, w1)
      | (Inr assistant, w1) \<Rightarrow>
     (case load_documents F ''data'' (py_print ''\<newline>Loading documents...'' w1) of
        (Inl e, w2) \<Rightarrow> (Inl e, w2)
      | (Inr sample_docs, w2) \<Rightarrow>
     (case RAGAssistant_add_documents L assistant (map PStr sample_docs)
             (py_print (''Loaded '' @ str_of_nat (length sample_docs) @ '' sample documents'') w2) of
        (Inl e, w3) \<Rightarrow> (Inl e, w3)
      | (Inr u, w3) \<Rightarrow> main_loop L assistant stdin w3)))"

definition main ::
  "environ \<Rightarrow> filesystem \<Rightarrow> 'v libs \<Rightarrow> string list \<Rightarrow> 'v world \<Rightarrow> 'v world"
where
  "main env F L stdin w =
     (case main_try env F L stdin w of
        (Inr u, w1) \<Rightarrow> w1
      | (Inl e, w1) \<Rightarrow>
          py_print ''- GOOGLE_API_KEY (Google Gemini models)''
         (py_print ''- GROQ_API_KEY (Groq Llama models)''
         (py_print ''- OPENAI_API_KEY (OpenAI GPT models)''
         (py_print ''Make sure you have set up your .env file with at least one API key:''
         (py_print (''Error running RAG assistant: '' @ err_str e) w1)))))"

section \<open>Specification-level definitions\<close>

text \<open>
  The priority order of the providers and, for each, the environment variable of its
  credential, the variable of its model and the model used when that variable is
  unset. A credential is present when its variable is set to a non-empty string.
\<close>

definition priority :: "provider list" where
  "priority = [OpenAI, Groq, Google, Perplexity]"

fun key_var :: "provider \<Rightarrow> string" where
  "key_var OpenAI = ''OPENAI_API_KEY''"
| "key_var Groq = ''GROQ_API_KEY''"
| "key_var Google = ''GOOGLE_API_KEY''"
| "key_var Perplexity = ''PPLX_API_KEY''"

fun model_var :: "provider \<Rightarrow> string" where
  "model_var OpenAI = ''OPENAI_MODEL''"
| "model_var Groq = ''GROQ_MODEL''"
| "model_var Google = ''GOOGLE_MODEL''"
| "model_var Perplexity = ''PPLX_MODEL''"

fun default_model :: "provider \<Rightarrow> string" where
  "default_model OpenAI = ''gpt-4o-mini''"
| "default_model Groq = ''llama-3.1-8b-instant''"
| "default_model Google = ''gemini-2.0-flash''"
| "default_model Perplexity = ''gemini-1.5-flash''"

fun provider_label :: "provider \<Rightarrow> string" where
  "provider_label OpenAI = ''OpenAI''"
| "provider_label Groq = ''Groq''"
| "provider_label Google = ''Google Gemini''"
| "provider_label Perplexity = ''Perplexity''"

definition using_line :: "environ \<Rightarrow> provider \<Rightarrow> string" where
  "using_line env p =
     ''Using '' @ provider_label p @ '' model: '' @
     getenv_default env (model_var p) (default_model p)"

definition client_for :: "environ \<Rightarrow> provider \<Rightarrow> llm_client" where
  "client_for env p =
     \<lparr>provider = p, api_key = env (key_var p),
      model = getenv_default env (model_var p) (default_model p), temperature = 0\<rparr>"

text \<open>
  What \<^verbatim>\<open>load_documents\<close> makes of one directory entry, read off the contract of the
  loader: the extension is the part of the lowered name after its last dot; the
  extension selects the reader; a regular file whose reader returns a text is loaded;
  a regular file with no reader, or whose reader fails, is skipped with one line of
  diagnostic; an entry that is not a regular file is passed over silently.
\<close>

definition file_extension :: "string \<Rightarrow> string" where
  "file_extension filename = last (split_on CHR ''.'' (lower filename))"

definition read_file :: "filesystem \<Rightarrow> string \<Rightarrow> string \<Rightarrow> (string + string) option" where
  "read_file F data_dir filename =
     (let filepath = path_join data_dir filename; e = file_extension filename in
      if e = ''txt'' then Some (read_text F filepath)
      else if e = ''pdf'' then Some (map_sum id concat (pdf_page_texts F filepath))
      else if e = ''doc'' \<or> e = ''docx'' then
        Some (map_sum id (join_str ''\<newline>'') (docx_paragraphs F filepath))
      else None)"

definition loaded_text :: "filesystem \<Rightarrow> string \<Rightarrow> string \<Rightarrow> string option" where
  "loaded_text F data_dir filename =
     (if isfile F (path_join data_dir filename) then
        (case read_file F data_dir filename of
           Some (Inr text) \<Rightarrow> Some text
         | Some (Inl m) \<Rightarrow> None
         | None \<Rightarrow> None)
      else None)"

definition diagnostic :: "filesystem \<Rightarrow> string \<Rightarrow> string \<Rightarrow> string option" where
  "diagnostic F data_dir filename =
     (if isfile F (path_join data_dir filename) then
        (case read_file F data_dir filename of
           Some (Inr text) \<Rightarrow> None
         | Some (Inl m) \<Rightarrow> Some (''Error loading '' @ filename @ '': '' @ m)
         | None \<Rightarrow> Some (''Unsupported file type skipped: '' @ filename))
      else None)"

text \<open>
  The IDs of one call of \<^verbatim>\<open>add_documents\<close> whose documents yield the given numbers of
  chunks: documents are numbered from 0 in every call, chunks from 0 in every
  document.
\<close>

fun ids_from :: "nat \<Rightarrow> nat list \<Rightarrow> string list" where
  "ids_from doc_id [] = []"
| "ids_from doc_id (n # ns) = map (chunk_id doc_id) [0..<n] @ ids_from (Suc doc_id) ns"

definition positional_ids :: "nat list \<Rightarrow> string list" where
  "positional_ids counts = ids_from 0 counts"

text \<open>
  A document with the defaults of \<^verbatim>\<open>add_documents\<close> written into it: the empty string
  for \<^verbatim>\<open>content\<close> and the empty mapping for \<^verbatim>\<open>metadata\<close>, behind the bindings the
  document has.
\<close>

fun with_defaults :: "'v pyval \<Rightarrow> 'v pyval" where
  "with_defaults (PDict kvs) = PDict (kvs @ [(''content'', PStr []), (''metadata'', PDict [])])"
| "with_defaults x = x"

fun is_mapping :: "'v pyval \<Rightarrow> bool" where
  "is_mapping (PDict kvs) = True"
| "is_mapping x = False"

text \<open>
  A store that refuses a query whose \<^verbatim>\<open>include\<close> list names \<^verbatim>\<open>ids\<close>. ChromaDB is such a
  store: it returns the IDs with every answer and accepts only the other fields of a
  record as items of \<^verbatim>\<open>include\<close>.
\<close>

definition rejects_ids :: "'v libs \<Rightarrow> bool" where
  "rejects_ids L =
     (\<forall>name accepted q n include.
        ''ids'' \<in> set include \<longrightarrow> (\<exists>m. collection_query L name accepted q n include = Inl m))"

section \<open>Stand-ins for the outside world\<close>

text \<open>
  Concrete environments, file systems and libraries at which the theorems below are
  instantiated. They stand for nothing in the repository: a theorem holds for every
  environment, file system and library, and these only show that its hypotheses can
  be met. \<open>stub_libs\<close> is the simplest store that accepts everything; \<open>nested_libs\<close>
  answers a query in the shape of ChromaDB's answer, one list for each query
  embedding under every key; \<open>strict_libs\<close> refuses the item \<^verbatim>\<open>ids\<close> in addition.
\<close>

definition world0 :: "nat world" where
  "world0 = \<lparr>colls = (\<lambda>name. []), out = []\<rparr>"

definition env_groq_google :: environ where
  "env_groq_google = map_of [(''GROQ_API_KEY'', ''gsk-1''), (''GOOGLE_API_KEY'', ''AIza-2'')]"

definition stub_libs :: "nat libs" where
  "stub_libs =
     \<lparr>split_text = (\<lambda>size overlap text.
        case text of PStr s \<Rightarrow> Inr (if s = [] then [] else [s]) | _ \<Rightarrow> Inl ''expected str''),
      sentence_transformer = (\<lambda>name. Inr ()),
      encode = (\<lambda>name texts. Inr (length texts)),
      persistent_client = (\<lambda>path. Inr ()),
      get_or_create_collection = (\<lambda>name. Inr ()),
      collection_add = (\<lambda>name accepted request. Inr ()),
      collection_query = (\<lambda>name accepted q n include.
        Inr (Some [(''documents'', PList (map PStr (take (nat n) (concat (map documents accepted))))),
                   (''metadatas'', PList (take (nat n) (concat (map metadatas accepted)))),
                   (''distances'', PList (map PLib (take (nat n) (concat (map (\<lambda>r. map (\<lambda>d. 0) (documents r)) accepted))))),
                   (''ids'', PList (map PStr (take (nat n) (concat (map ids accepted)))))])),
      chat_model = (\<lambda>client. Inr ()),
      llm_chat = (\<lambda>client prompt. Inr ''The sky is blue.'')\<rparr>"

definition nested_libs :: "nat libs" where
  "nested_libs =
     stub_libs\<lparr>collection_query := (\<lambda>name accepted q n include.
        Inr (Some [(''ids'', PList [PList (map PStr (take (nat n) (concat (map ids accepted))))]),
                   (''documents'', PList [PList (map PStr (take (nat n) (concat (map documents accepted))))]),
                   (''metadatas'', PList [PList (take (nat n) (concat (map metadatas accepted)))]),
                   (''distances'', PList [PList (map PLib (take (nat n) (concat (map (\<lambda>r. map (\<lambda>d. 0) (documents r)) accepted))))])]))\<rparr>"

definition strict_libs :: "nat libs" where
  "strict_libs =
     nested_libs\<lparr>collection_query := (\<lambda>name accepted q n include.
        if ''ids'' \<in> set include
        then Inl ''Expected include item to be one of documents, embeddings, metadatas, distances, uris, data, got ids''
        else collection_query nested_libs name accepted q n include)\<rparr>"

definition stub_fs :: filesystem where
  "stub_fs =
     \<lparr>listdir = (\<lambda>d. if d = ''data'' then Inr [''a.txt'', ''broken.pdf'', ''B.TXT'', ''notes.md'', ''sub'']
                     else Inl ''No such file or directory''),
      isfile = (\<lambda>p. p \<in> set [''data/a.txt'', ''data/broken.pdf'', ''data/B.TXT'', ''data/notes.md'']),
      read_text = (\<lambda>p. if p = ''data/a.txt'' then Inr ''The sky is blue.''
                       else if p = ''data/B.TXT'' then Inr ''Grass is green.''
                       else Inl ''No such file or directory''),
      pdf_page_texts = (\<lambda>p. Inl ''Failed to open file''),
      docx_paragraphs = (\<lambda>p. Inl ''Package not found'')\<rparr>"

definition stub_db :: vectordb where
  "stub_db = \<lparr>collection_name = ''rag_documents'',
              embedding_model_name = ''sentence-transformers/all-MiniLM-L6-v2''\<rparr>"

definition doc_sky :: "nat pyval" where
  "doc_sky = PDict [(''content'', PStr ''The sky is blue. Grass is green.'')]"

definition stub_fs_empty :: filesystem where
  "stub_fs_empty =
     \<lparr>listdir = (\<lambda>d. Inr []),
      isfile = (\<lambda>p. False),
      read_text = (\<lambda>p. Inl ''No such file or directory''),
      pdf_page_texts = (\<lambda>p. Inl ''No such file or directory''),
      docx_paragraphs = (\<lambda>p. Inl ''No such file or directory'')\<rparr>"

definition stub_assistant :: rag_assistant where
  "stub_assistant =
     \<lparr>llm = \<lparr>provider = Groq, api_key = Some ''gsk-1'',
              model = ''llama-3.1-8b-instant'', temperature = 0\<rparr>,
      vector_db = stub_db\<rparr>"

definition world_sky :: "nat world" where
  "world_sky =
     \<lparr>colls = (\<lambda>name. [])(''rag_documents'' :=
        [\<lparr>documents = [''The sky is blue.'', ''Grass is green.''],
          metadatas = [PDict [], PDict []], embeddings = 2,
          ids = [''doc_0_chunk_0'', ''doc_0_chunk_1'']\<rparr>]),
      out = []\<rparr>"

section \<open>Basic facts\<close>

lemma str_of_nat_small: "n < 10 \<Longrightarrow> str_of_nat n = [digit_char n]"
  by (subst str_of_nat.simps) simp

lemma str_of_nat_large:
  "\<not> n < 10 \<Longrightarrow> str_of_nat n = str_of_nat (n div 10) @ [digit_char (n mod 10)]"
  by (subst str_of_nat.simps) simp

lemma split_on_nonempty: "split_on sep s \<noteq> []"
  by (induction s) (auto split: list.splits)

section \<open>Provider selection\<close>

lemma initialize_llm_priority:
  "initialize_llm env L w =
     (case find (\<lambda>p. truthy (env (key_var p))) priority of
        None \<Rightarrow> (Inl (ValueError no_key_message), w)
      | Some p \<Rightarrow> new_client L (client_for env p) (py_print (using_line env p) w))"
  by (simp add: initialize_llm_def priority_def client_for_def using_line_def Let_def)

text \<open>
  C4. Constructing an assistant probes the credentials in the order OpenAI, Groq,
  Google, Perplexity. The first provider whose credential is present becomes the
  provider of the assistant, with the model named by its model variable or else its
  default model; no other provider is considered after it, also when the library
  fails to construct its client or the vector database cannot be constructed. When
  no credential is present the construction fails with the ValueError whose message
  names the credentials to set: the environment is read once, nothing is tried again
  and the world is left as it was. An assistant is a value no operation updates, so
  the client chosen here is the one every later call uses.
\<close>

theorem provider_selected_by_priority:
  "RAGAssistant_init env L w =
     (case find (\<lambda>p. truthy (env (key_var p))) priority of
        None \<Rightarrow> (Inl (ValueError no_key_message), w)
      | Some p \<Rightarrow>
          (case chat_model L (client_for env p) of
             Inl m \<Rightarrow> (Inl (External m), py_print (using_line env p) w)
           | Inr u \<Rightarrow>
               (case VectorDB_init env L None None (py_print (using_line env p) w) of
                  (Inl e, w2) \<Rightarrow> (Inl e, w2)
                | (Inr db, w2) \<Rightarrow>
                    (Inr \<lparr>llm = client_for env p, vector_db = db\<rparr>,
                     py_print ''RAG Assistant initialized successfully'' w2))))"
  by (simp add: RAGAssistant_init_def initialize_llm_priority new_client_def ext_def
        client_truthy_def split: option.splits sum.splits)

text \<open>
  With the Groq and Google credentials set and the OpenAI credential unset, Groq is
  selected, with its default model; with no variable set at all, the construction
  fails.
\<close>

theorem provider_selected_by_priority_witness:
  "fst (RAGAssistant_init env_groq_google stub_libs world0) =
     Inr \<lparr>llm = \<lparr>provider = Groq, api_key = Some ''gsk-1'',
                 model = ''llama-3.1-8b-instant'', temperature = 0\<rparr>,
          vector_db = \<lparr>collection_name = ''rag_documents'',
                       embedding_model_name = ''sentence-transformers/all-MiniLM-L6-v2''\<rparr>\<rparr>
   \<and> RAGAssistant_init Map.empty stub_libs world0 =
       (Inl (ValueError (''No valid API key found. Please set one of: '' @
               ''OPENAI_API_KEY, GROQ_API_KEY, or GOOGLE_API_KEY in your .env file'')),
        world0)"
  using provider_selected_by_priority [of env_groq_google stub_libs world0]
    provider_selected_by_priority [of Map.empty stub_libs world0]
  by (simp add: env_groq_google_def priority_def truthy_def client_for_def getenv_default_def
        VectorDB_init_def stub_libs_def ext_def py_or_def Let_def no_key_message_def)

section \<open>Loading documents\<close>

lemma foldl_append_concat: "foldl (@) acc xss = acc @ concat xss"
  by (induction xss arbitrary: acc) auto

lemma load_documents_body_eq:
  "load_documents_body F data_dir filename results w =
     (results @ (case loaded_text F data_dir filename of None \<Rightarrow> [] | Some t \<Rightarrow> [t]),
      w\<lparr>out := out w @ (case diagnostic F data_dir filename of None \<Rightarrow> [] | Some l \<Rightarrow> [l])\<rparr>)"
  by (auto simp: load_documents_body_def loaded_text_def diagnostic_def read_file_def
        file_extension_def error_loading_def py_print_def ext_def Let_def foldl_append_concat
        split: sum.splits)

lemma load_documents_loop_eq:
  "load_documents_loop F data_dir filenames results w =
     (results @ List.map_filter (loaded_text F data_dir) filenames,
      w\<lparr>out := out w @ List.map_filter (diagnostic F data_dir) filenames\<rparr>)"
proof (induction filenames arbitrary: results w)
  case Nil
  show ?case by simp
next
  case (Cons filename rest)
  show ?case
    by (simp add: load_documents_body_eq Cons.IH split: option.splits)
qed

text \<open>
  C5. \<^verbatim>\<open>load_documents\<close> raises only when the directory itself cannot be listed. Once
  it is listed, the result is the list of the texts of the entries that load, one text
  for each such entry and in the order of the listing, whatever happens to the other
  entries; standard output gains one line for every regular file that was skipped,
  an error line when its reader failed and a line naming the file when its extension
  has no reader.
\<close>

theorem load_documents_skips_bad_files:
  "load_documents F data_dir w =
     (case listdir F data_dir of
        Inl m \<Rightarrow> (Inl (External m), w)
      | Inr filenames \<Rightarrow>
          (Inr (List.map_filter (loaded_text F data_dir) filenames),
           w\<lparr>out := out w @ List.map_filter (diagnostic F data_dir) filenames\<rparr>))"
  by (simp add: load_documents_def load_documents_loop_eq ext_def split: sum.splits)

text \<open>
  A directory with a corrupt PDF between two valid text files, a file of an
  unsupported type and a subdirectory: two texts are returned.
\<close>

theorem load_documents_skips_bad_files_witness:
  "load_documents stub_fs ''data'' world0 =
     (Inr [''The sky is blue.'', ''Grass is green.''],
      world0\<lparr>out := [''Error loading broken.pdf: Failed to open file'',
                      ''Unsupported file type skipped: notes.md'']\<rparr>)"
  using load_documents_skips_bad_files [of stub_fs "''data''" world0]
  by (simp add: stub_fs_def world0_def loaded_text_def diagnostic_def
        read_file_def file_extension_def path_join_def lower_def lower_char_def Let_def)

section \<open>Chunk identifiers\<close>

lemma digit_cases: "d < 10 \<Longrightarrow> d = 0 \<or> d = 1 \<or> d = 2 \<or> d = 3 \<or> d = 4 \<or> d = 5 \<or> d = 6 \<or> d = 7 \<or> d = 8 \<or> d = (9::nat)"
  by arith

lemma digit_char_inj: "d < 10 \<Longrightarrow> d' < 10 \<Longrightarrow> digit_char d = digit_char d' \<Longrightarrow> d = d'"
  using digit_cases [of d] digit_cases [of d']
  by (auto simp: digit_char_def)

lemma digit_char_not_underscore: "d < 10 \<Longrightarrow> digit_char d \<noteq> CHR ''_''"
  using digit_cases [of d] by (auto simp: digit_char_def)

lemma str_of_nat_no_underscore: "CHR ''_'' \<notin> set (str_of_nat n)"
proof (induction n rule: str_of_nat.induct)
  case (1 n)
  show ?case
  proof (cases "n < 10")
    case True
    then show ?thesis
      using digit_char_not_underscore [of n] by (simp add: str_of_nat_small)
  next
    case False
    then show ?thesis
      using 1 digit_char_not_underscore [of "n mod 10"] by (simp add: str_of_nat_large)
  qed
qed

lemma str_of_nat_nonempty: "str_of_nat n \<noteq> []"
  by (cases "n < 10") (simp_all add: str_of_nat_small str_of_nat_large)

lemma str_of_nat_length: "length (str_of_nat n) = 1 \<longleftrightarrow> n < 10"
  using str_of_nat_nonempty [of "n div 10"]
  by (cases "n < 10") (simp_all add: str_of_nat_small str_of_nat_large)

lemma str_of_nat_inj: "str_of_nat m = str_of_nat n \<Longrightarrow> m = n"
proof (induction m arbitrary: n rule: str_of_nat.induct)
  case (1 m)
  show ?case
  proof (cases "m < 10")
    case True
    then have "length (str_of_nat n) = 1" using "1.prems" str_of_nat_length [of m] by simp
    then have n: "n < 10" using str_of_nat_length [of n] by blast
    then show ?thesis
      using True "1.prems" digit_char_inj by (simp add: str_of_nat_small)
  next
    case False
    then have "length (str_of_nat n) \<noteq> 1" using "1.prems" str_of_nat_length [of m] by simp
    then have n: "\<not> n < 10" using str_of_nat_length [of n] by blast
    have eq: "str_of_nat (m div 10) @ [digit_char (m mod 10)] =
          str_of_nat (n div 10) @ [digit_char (n mod 10)]"
      using "1.prems" False n by (simp add: str_of_nat_large)
    then have "m div 10 = n div 10" using "1.IH" [OF False] by simp
    moreover have "m mod 10 = n mod 10" using eq digit_char_inj [of "m mod 10" "n mod 10"] by simp
    ultimately show ?thesis by (metis div_mult_mod_eq)
  qed
qed

lemma split_at_marker:
  assumes "xs @ c # ys = xs' @ c # ys'" and "c \<notin> set xs" and "c \<notin> set xs'"
  shows "xs = xs' \<and> ys = ys'"
proof -
  have "takeWhile (\<lambda>x. x \<noteq> c) (xs @ c # ys) = xs"
    using assms(2) by (auto simp: takeWhile_tail)
  moreover have "takeWhile (\<lambda>x. x \<noteq> c) (xs' @ c # ys') = xs'"
    using assms(3) by (auto simp: takeWhile_tail)
  ultimately have "xs = xs'" using assms(1) by simp
  then show ?thesis using assms(1) by simp
qed

lemma chunk_id_inj: "chunk_id i j = chunk_id i' j' \<Longrightarrow> i = i' \<and> j = j'"
proof -
  assume "chunk_id i j = chunk_id i' j'"
  then have "str_of_nat i @ CHR ''_'' # (''chunk_'' @ str_of_nat j) =
             str_of_nat i' @ CHR ''_'' # (''chunk_'' @ str_of_nat j')"
    by (simp add: chunk_id_def)
  then have "str_of_nat i = str_of_nat i' \<and> ''chunk_'' @ str_of_nat j = ''chunk_'' @ str_of_nat j'"
    by (rule split_at_marker) (rule str_of_nat_no_underscore)+
  then show ?thesis using str_of_nat_inj by simp
qed

lemma ids_from_elems:
  "x \<in> set (ids_from i ns) \<Longrightarrow> \<exists>i' j. i \<le> i' \<and> x = chunk_id i' j"
proof (induction ns arbitrary: i)
  case Nil
  then show ?case by simp
next
  case (Cons n ns)
  then show ?case
  proof (cases "x \<in> set (map (chunk_id i) [0..<n])")
    case True
    then show ?thesis by auto
  next
    case False
    then have "x \<in> set (ids_from (Suc i) ns)" using Cons.prems by simp
    then obtain i' j where "Suc i \<le> i'" "x = chunk_id i' j" using Cons.IH by blast
    then show ?thesis by (intro exI [of _ i'] exI [of _ j]) simp
  qed
qed

lemma distinct_ids_from: "distinct (ids_from i ns)"
proof (induction ns arbitrary: i)
  case Nil
  show ?case by simp
next
  case (Cons n ns)
  have "distinct (map (chunk_id i) [0..<n])"
    by (auto simp: distinct_map inj_on_def dest: chunk_id_inj)
  moreover have "set (map (chunk_id i) [0..<n]) \<inter> set (ids_from (Suc i) ns) = {}"
  proof (rule ccontr)
    assume "set (map (chunk_id i) [0..<n]) \<inter> set (ids_from (Suc i) ns) \<noteq> {}"
    then obtain x where a: "x \<in> set (map (chunk_id i) [0..<n])" and b: "x \<in> set (ids_from (Suc i) ns)"
      by blast
    from a obtain j where "x = chunk_id i j" by auto
    moreover from b obtain i' j' where "Suc i \<le> i'" "x = chunk_id i' j'"
      using ids_from_elems by blast
    ultimately show False using chunk_id_inj [of i j i' j'] by simp
  qed
  ultimately show ?case using Cons.IH [of "Suc i"] by simp
qed

lemma add_documents_body_error:
  "add_documents_body L self i doc w = (Inl e, w') \<Longrightarrow> colls w' = colls w"
  by (auto simp: add_documents_body_def chunk_text_def py_print_def Let_def
           split: sum.splits prod.splits)

lemma add_documents_body_ok:
  "add_documents_body L self i doc w = (Inr u, w') \<Longrightarrow>
     \<exists>req. colls w' = (colls w)(collection_name self := colls w (collection_name self) @ [req])
           \<and> ids req = map (chunk_id i) [0..<length (documents req)]"
  by (auto simp: add_documents_body_def chunk_text_def py_print_def Let_def
           split: sum.splits prod.splits)

lemma add_documents_body_colls:
  assumes "add_documents_body L self i doc w = (r, w')"
  shows "(\<exists>e. r = Inl e \<and> colls w' = colls w) \<or>
         (r = Inr () \<and> (\<exists>req. colls w' = (colls w)(collection_name self := colls w (collection_name self) @ [req])
                         \<and> ids req = map (chunk_id i) [0..<length (documents req)]))"
proof (cases r)
  case (Inl e)
  then show ?thesis using assms add_documents_body_error by blast
next
  case (Inr u)
  then show ?thesis using assms add_documents_body_ok [of L self i doc w u w'] by simp
qed

lemma add_documents_loop_colls:
  assumes "add_documents_loop L self i docs w = (r, w')"
  shows "\<exists>reqs. colls w' = (colls w)(collection_name self := colls w (collection_name self) @ reqs)
           \<and> concat (map ids reqs) = ids_from i (map (\<lambda>q. length (documents q)) reqs)"
  using assms
proof (induction docs arbitrary: i w)
  case Nil
  then show ?case by (intro exI [of _ "[]"]) auto
next
  case (Cons doc rest)
  obtain r1 w1 where body: "add_documents_body L self i doc w = (r1, w1)"
    by (cases "add_documents_body L self i doc w")
  from add_documents_body_colls [OF body] show ?case
  proof
    assume "\<exists>e. r1 = Inl e \<and> colls w1 = colls w"
    then have "colls w' = colls w" using Cons.prems body by auto
    then show ?thesis by (intro exI [of _ "[]"]) auto
  next
    assume "r1 = Inr () \<and> (\<exists>req. colls w1 = (colls w)(collection_name self := colls w (collection_name self) @ [req])
                         \<and> ids req = map (chunk_id i) [0..<length (documents req)])"
    then obtain req where r1: "r1 = Inr ()"
      and w1: "colls w1 = (colls w)(collection_name self := colls w (collection_name self) @ [req])"
      and req: "ids req = map (chunk_id i) [0..<length (documents req)]" by blast
    have "add_documents_loop L self (Suc i) rest w1 = (r, w')"
      using Cons.prems body r1 by simp
    from Cons.IH [OF this] obtain reqs where
      w': "colls w' = (colls w1)(collection_name self := colls w1 (collection_name self) @ reqs)"
      and reqs: "concat (map ids reqs) = ids_from (Suc i) (map (\<lambda>q. length (documents q)) reqs)"
      by blast
    show ?thesis
      using w' w1 req reqs by (intro exI [of _ "req # reqs"]) auto
  qed
qed

lemma add_documents_colls:
  assumes "add_documents L self docs w = (r, w')"
  shows "\<exists>reqs. colls w' = (colls w)(collection_name self := colls w (collection_name self) @ reqs)
           \<and> concat (map ids reqs) = ids_from 0 (map (\<lambda>q. length (documents q)) reqs)"
proof -
  obtain r1 w1 where loop: "add_documents_loop L self 0 docs
      (py_print (''Processing '' @ str_of_nat (length docs) @ '' documents...'') w) = (r1, w1)"
    by (cases "add_documents_loop L self 0 docs
      (py_print (''Processing '' @ str_of_nat (length docs) @ '' documents...'') w)")
  have "colls w' = colls w1"
    using assms loop by (auto simp: add_documents_def py_print_def split: sum.splits)
  then show ?thesis
    using add_documents_loop_colls [OF loop] by (simp add: py_print_def)
qed

text \<open>
  C9. Whatever the outcome of a call of \<^verbatim>\<open>add_documents\<close>, the batches it has added to
  the collection carry the IDs \<^verbatim>\<open>doc_<i>_chunk_<j>\<close>, with \<open>i\<close> counting the documents of
  this call from 0 and \<open>j\<close> the chunks of document \<open>i\<close> from 0, and these IDs are
  pairwise distinct. The numbering does not depend on what the collection already
  holds: every call whose first document yields a chunk starts with the ID
  \<^verbatim>\<open>doc_0_chunk_0\<close>, so the IDs of two calls are not distinct from each other. The
  ID determines the document and the chunk it was generated for, so the IDs generated
  for a batch that the store rejects differ from all others of the call as well.
\<close>

theorem chunk_ids_distinct_within_call:
  assumes "add_documents L self docs w = (r, w')"
  shows "\<exists>reqs. colls w' = (colls w)(collection_name self := colls w (collection_name self) @ reqs)
           \<and> concat (map ids reqs) = positional_ids (map (\<lambda>q. length (documents q)) reqs)
           \<and> distinct (concat (map ids reqs))
           \<and> (\<forall>q qs. reqs = q # qs \<longrightarrow> documents q \<noteq> [] \<longrightarrow>
                  hd (concat (map ids reqs)) = ''doc_0_chunk_0'')
           \<and> (\<forall>i j i' j'. chunk_id i j = chunk_id i' j' \<longrightarrow> i = i' \<and> j = j')"
proof -
  from add_documents_colls [OF assms] obtain reqs where
    colls: "colls w' = (colls w)(collection_name self := colls w (collection_name self) @ reqs)"
    and ids: "concat (map ids reqs) = ids_from 0 (map (\<lambda>q. length (documents q)) reqs)"
    by blast
  have "distinct (concat (map ids reqs))"
    using ids distinct_ids_from by simp
  moreover have "hd (concat (map ids reqs)) = ''doc_0_chunk_0''"
    if "reqs = q # qs" "documents q \<noteq> []" for q qs
  proof -
    have "[0..<length (documents q)] = 0 # [1..<length (documents q)]"
      using that(2) by (simp add: upt_conv_Cons)
    then show ?thesis
      using ids that by (simp add: chunk_id_def digit_char_def str_of_nat_small)
  qed
  moreover have "\<forall>i j i' j'. chunk_id i j = chunk_id i' j' \<longrightarrow> i = i' \<and> j = j'"
    using chunk_id_inj by blast
  ultimately show ?thesis
    using colls ids by (intro exI [of _ reqs]) (simp add: positional_ids_def)
qed

text \<open>
  Two calls with the same one-chunk document: both batches carry the ID
  \<^verbatim>\<open>doc_0_chunk_0\<close>.
\<close>

theorem chunk_ids_distinct_within_call_witness:
  "map ids (colls (snd (add_documents stub_libs stub_db [doc_sky]
                     (snd (add_documents stub_libs stub_db [doc_sky] world0)))) ''rag_documents'')
   = [[''doc_0_chunk_0''], [''doc_0_chunk_0'']]"
  using chunk_ids_distinct_within_call [OF prod.collapse [symmetric],
          of stub_libs stub_db "[doc_sky]" "snd (add_documents stub_libs stub_db [doc_sky] world0)"]
  by (simp add: add_documents_def add_documents_body_def chunk_text_def stub_libs_def stub_db_def
        doc_sky_def world0_def py_print_def ext_def chunk_id_def digit_char_def
        str_of_nat_small Let_def)

section \<open>Documents without content or metadata\<close>

lemma py_get_with_defaults:
  "py_get (with_defaults doc) ''content'' (PStr []) = py_get doc ''content'' (PStr [])"
  "py_get (with_defaults doc) ''metadata'' (PDict []) = py_get doc ''metadata'' (PDict [])"
  by (cases doc; simp add: map_add_def split: option.splits)+

lemma add_documents_body_with_defaults:
  "add_documents_body L self i (with_defaults doc) w = add_documents_body L self i doc w"
  by (simp add: add_documents_body_def py_get_with_defaults cong: sum.case_cong)

lemma add_documents_loop_with_defaults:
  "add_documents_loop L self i (map with_defaults docs) w = add_documents_loop L self i docs w"
  by (induction docs arbitrary: i w)
     (simp_all add: add_documents_body_with_defaults split: prod.splits sum.splits)

lemma add_documents_body_errors:
  "add_documents_body L self i doc w = (Inl e, w') \<Longrightarrow>
     (\<exists>m. e = External m) \<or> (\<not> is_mapping doc \<and> e = no_attribute (type_name doc) ''get'')"
  by (cases doc)
     (auto simp: add_documents_body_def chunk_text_def ext_def Let_def
           split: sum.splits prod.splits)

lemma add_documents_loop_errors:
  "add_documents_loop L self i docs w = (Inl e, w') \<Longrightarrow>
     (\<exists>m. e = External m) \<or> (\<exists>doc\<in>set docs. \<not> is_mapping doc \<and> e = no_attribute (type_name doc) ''get'')"
proof (induction docs arbitrary: i w)
  case Nil
  then show ?case by simp
next
  case (Cons doc rest)
  obtain r1 w1 where body: "add_documents_body L self i doc w = (r1, w1)"
    by (cases "add_documents_body L self i doc w")
  show ?case
  proof (cases r1)
    case (Inl e1)
    then have "e = e1" using Cons.prems body by simp
    then show ?thesis using add_documents_body_errors [of L self i doc w e w1] body Inl by auto
  next
    case (Inr u)
    then have "add_documents_loop L self (Suc i) rest w1 = (Inl e, w')"
      using Cons.prems body by simp
    from Cons.IH [OF this] show ?thesis by auto
  qed
qed

lemma add_documents_errors:
  assumes "add_documents L self docs w = (Inl e, w')"
  shows "(\<exists>m. e = External m) \<or> (\<exists>doc\<in>set docs. \<not> is_mapping doc \<and> e = no_attribute (type_name doc) ''get'')"
proof -
  have "\<exists>w0. add_documents_loop L self 0 docs w0 = (Inl e, w')"
    using assms by (auto simp: add_documents_def split: prod.splits sum.splits)
  then show ?thesis using add_documents_loop_errors by blast
qed

lemma add_documents_body_no_content:
  assumes "map_of kvs ''content'' = None" and "split_text L 500 50 (PStr []) = Inr []"
    and "add_documents_body L self i (PDict kvs) w = (Inr u, w')"
  shows "\<exists>v. colls w' = (colls w)(collection_name self := colls w (collection_name self) @
            [\<lparr>documents = [], metadatas = [], embeddings = v, ids = []\<rparr>])"
  using assms
  by (auto simp: add_documents_body_def chunk_text_def py_print_def ext_def Let_def
           split: sum.splits prod.splits)

text \<open>
  C10. A document mapping is treated as if the defaults were written into it: the
  empty string where it has no \<^verbatim>\<open>content\<close> and the empty mapping where it has no
  \<^verbatim>\<open>metadata\<close>. \<^verbatim>\<open>add_documents\<close> never raises KeyError; on a list of mappings it
  either succeeds or passes on an exception that an external library raised. When
  the splitter returns no chunk for the empty string, a document without \<^verbatim>\<open>content\<close>
  contributes a batch with no chunk, no metadata entry and no ID.
\<close>

theorem missing_keys_take_defaults:
  "add_documents L self docs w = add_documents L self (map with_defaults docs) w
   \<and> fst (add_documents L self docs w) \<noteq> Inl (KeyError k)
   \<and> (list_all is_mapping docs \<longrightarrow>
        fst (add_documents L self docs w) = Inr () \<or>
        (\<exists>m. fst (add_documents L self docs w) = Inl (External m)))
   \<and> (map_of kvs ''content'' = None \<longrightarrow> split_text L 500 50 (PStr []) = Inr [] \<longrightarrow>
        add_documents_body L self i (PDict kvs) w = (Inr (), w') \<longrightarrow>
        (\<exists>v. colls w' = (colls w)(collection_name self := colls w (collection_name self) @
                [\<lparr>documents = [], metadatas = [], embeddings = v, ids = []\<rparr>])))"
proof (intro conjI impI)
  show "add_documents L self docs w = add_documents L self (map with_defaults docs) w"
    by (simp add: add_documents_def add_documents_loop_with_defaults)
  obtain r w1 where call: "add_documents L self docs w = (r, w1)"
    by (cases "add_documents L self docs w")
  show "fst (add_documents L self docs w) \<noteq> Inl (KeyError k)"
    using add_documents_errors [of L self docs w "KeyError k" w1] call
    by (auto simp: no_attribute_def)
  show "fst (add_documents L self docs w) = Inr () \<or>
        (\<exists>m. fst (add_documents L self docs w) = Inl (External m))"
    if "list_all is_mapping docs"
  proof (cases r)
    case (Inl e)
    then show ?thesis
      using add_documents_errors [of L self docs w e w1] call that
      by (auto simp: list_all_iff)
  next
    case (Inr u)
    then show ?thesis using call by simp
  qed
  show "\<exists>v. colls w' = (colls w)(collection_name self := colls w (collection_name self) @
                [\<lparr>documents = [], metadatas = [], embeddings = v, ids = []\<rparr>])"
    if "map_of kvs ''content'' = None" "split_text L 500 50 (PStr []) = Inr []"
       "add_documents_body L self i (PDict kvs) w = (Inr (), w')"
    using add_documents_body_no_content [OF that] .
qed

text \<open>A document with neither key, added to an empty collection.\<close>

theorem missing_keys_take_defaults_witness:
  "add_documents stub_libs stub_db [PDict []] world0 =
     (Inr (),
      \<lparr>colls = (\<lambda>name. [])(''rag_documents'' :=
                 [\<lparr>documents = [], metadatas = [], embeddings = 0, ids = []\<rparr>]),
       out = [''Processing 1 documents...'', ''Document 0: Split into 0 chunks'',
              ''Documents added to vector database'']\<rparr>)"
  using missing_keys_take_defaults [of stub_libs stub_db "[PDict []]" world0 "[]" "[]" 0]
  by (simp add: add_documents_def add_documents_body_def chunk_text_def stub_libs_def stub_db_def
        world0_def py_print_def ext_def digit_char_def str_of_nat_small Let_def)

section \<open>The ingestion path of the demo\<close>

text \<open>
  C2. \<^verbatim>\<open>main\<close> hands the texts that \<^verbatim>\<open>load_documents\<close> returned to
  \<^verbatim>\<open>add_documents\<close>, which calls \<^verbatim>\<open>get\<close> on each document. A text is a string and
  has no such method: unless no text was loaded, the call raises AttributeError at the
  first text, after the line that announces the processing and before anything is
  chunked, embedded or stored.
\<close>

theorem loaded_texts_are_rejected:
  "RAGAssistant_add_documents L assistant (map PStr texts) w =
     (if texts = [] then
        (Inr (), py_print ''Documents added to vector database''
                   (py_print ''Processing 0 documents...'' w))
      else
        (Inl (no_attribute ''str'' ''get''),
         py_print (''Processing '' @ str_of_nat (length texts) @ '' documents...'') w))"
  by (cases texts)
     (simp_all add: RAGAssistant_add_documents_def add_documents_def add_documents_body_def
        digit_char_def str_of_nat_small)

text \<open>
  The demo on a data directory with two loadable files: the collection stays empty
  and the handler of \<^verbatim>\<open>main\<close> prints the error; no question is ever asked for.
\<close>

theorem loaded_texts_are_rejected_witness:
  "main env_groq_google stub_fs stub_libs [''What color is the sky?'', ''quit''] world0 =
     \<lparr>colls = (\<lambda>name. []),
      out = [''Initializing RAG Assistant...'',
             ''Using Groq model: llama-3.1-8b-instant'',
             ''Loading embedding model: sentence-transformers/all-MiniLM-L6-v2'',
             ''Vector database initialized with collection: rag_documents'',
             ''RAG Assistant initialized successfully'',
             ''\<newline>Loading documents...'',
             ''Error loading broken.pdf: Failed to open file'',
             ''Unsupported file type skipped: notes.md'',
             ''Loaded 2 sample documents'',
             ''Processing 2 documents...'',
             ''Error running RAG assistant: '' @ quoted ''str'' @ '' object has no attribute '' @ quoted ''get'',
             ''Make sure you have set up your .env file with at least one API key:'',
             ''- OPENAI_API_KEY (OpenAI GPT models)'',
             ''- GROQ_API_KEY (Groq Llama models)'',
             ''- GOOGLE_API_KEY (Google Gemini models)'']\<rparr>"
proof -
  have ingest:
    "RAGAssistant_add_documents stub_libs assistant
       [PStr ''The sky is blue.'', PStr ''Grass is green.''] w =
     (Inl (no_attribute ''str'' ''get''), py_print ''Processing 2 documents...'' w)"
    for assistant and w :: "nat world"
    using loaded_texts_are_rejected
            [of stub_libs assistant "[''The sky is blue.'', ''Grass is green.'']" w]
    by (simp add: digit_char_def str_of_nat_small)
  show ?thesis
    by (simp add: main_def main_try_def ingest [unfolded stub_libs_def]
          RAGAssistant_init_def initialize_llm_def new_client_def client_truthy_def
          load_documents_def load_documents_body_def error_loading_def
          env_groq_google_def truthy_def getenv_default_def
          VectorDB_init_def stub_libs_def ext_def py_or_def Let_def py_print_def world0_def
          stub_fs_def path_join_def lower_def lower_char_def
          no_attribute_def digit_char_def str_of_nat_small)
qed

section \<open>The interactive loop\<close>

text \<open>
  C3. One turn of the loop of \<^verbatim>\<open>main\<close>: a line that is \<^verbatim>\<open>quit\<close> in any letter case
  ends the loop normally. Any other line leads to \<^verbatim>\<open>assistant.query(question)\<close>; the
  class has no attribute \<^verbatim>\<open>query\<close> (its method is \<^verbatim>\<open>invoke\<close>), so the turn raises
  AttributeError: the assistant is not invoked and no answer is printed.
\<close>

theorem question_raises_attribute_error:
  "main_loop L assistant (question # stdin) w =
     (if lower question = ''quit'' then (Inr (), py_print input_prompt w)
      else (Inl (no_attribute ''RAGAssistant'' ''query''), py_print input_prompt w))"
  by (simp add: call_method_def RAGAssistant_attributes_def Let_def)

text \<open>
  The demo on an empty data directory, with a question and then \<^verbatim>\<open>quit\<close> on standard
  input: the question ends the program through the handler of \<^verbatim>\<open>main\<close>.
\<close>

theorem question_raises_attribute_error_witness:
  "main env_groq_google stub_fs_empty stub_libs [''What color is the sky?'', ''quit''] world0 =
     \<lparr>colls = (\<lambda>name. []),
      out = [''Initializing RAG Assistant...'',
             ''Using Groq model: llama-3.1-8b-instant'',
             ''Loading embedding model: sentence-transformers/all-MiniLM-L6-v2'',
             ''Vector database initialized with collection: rag_documents'',
             ''RAG Assistant initialized successfully'',
             ''\<newline>Loading documents...'',
             ''Loaded 0 sample documents'',
             ''Processing 0 documents...'',
             ''Documents added to vector database'',
             ''Enter a question or '' @ quoted ''quit'' @ '' to exit: '',
             ''Error running RAG assistant: '' @ quoted ''RAGAssistant'' @ '' object has no attribute '' @ quoted ''query'',
             ''Make sure you have set up your .env file with at least one API key:'',
             ''- OPENAI_API_KEY (OpenAI GPT models)'',
             ''- GROQ_API_KEY (Groq Llama models)'',
             ''- GOOGLE_API_KEY (Google Gemini models)'']\<rparr>"
  by (simp del: main_loop.simps
        add: main_def main_try_def question_raises_attribute_error
        RAGAssistant_add_documents_def add_documents_def
        RAGAssistant_init_def initialize_llm_def new_client_def client_truthy_def
        load_documents_def
        env_groq_google_def truthy_def getenv_default_def
        VectorDB_init_def stub_libs_def ext_def py_or_def Let_def py_print_def world0_def
        stub_fs_empty_def lower_def lower_char_def input_prompt_def
        no_attribute_def digit_char_def str_of_nat_small)

section \<open>Searching\<close>

text \<open>
  \<^verbatim>\<open>search\<close> asks the store for the items \<^verbatim>\<open>documents\<close>, \<^verbatim>\<open>metadatas\<close>, \<^verbatim>\<open>distances\<close>
  and \<^verbatim>\<open>ids\<close> and has no handler: with a store that refuses \<^verbatim>\<open>ids\<close>, every call
  raises, either in the embedding model or in the store.
\<close>

lemma rejects_ids_strict_libs: "rejects_ids strict_libs"
  by (simp add: rejects_ids_def strict_libs_def)

lemma search_rejected:
  assumes "rejects_ids L"
  shows "\<exists>m. search L self query k w = (Inl (External m), w)"
proof (cases "encode L (embedding_model_name self) [query]")
  case (Inl m)
  then show ?thesis by (simp add: search_def ext_def)
next
  case (Inr qe)
  obtain m where "collection_query L (collection_name self) (colls w (collection_name self)) qe k
                    [''documents'', ''metadatas'', ''distances'', ''ids''] = Inl m"
    using assms unfolding rejects_ids_def by force
  then show ?thesis using Inr by (simp add: search_def ext_def)
qed

text \<open>
  C6. With a store that refuses the item \<^verbatim>\<open>ids\<close>, a search in an empty collection
  raises the exception of the embedding model or of the store, for every query and
  every number of results asked for; it does not return the four empty lists.
\<close>

theorem search_on_empty_collection_raises:
  assumes "rejects_ids L" and "colls w (collection_name self) = []"
  shows "\<exists>m. search L self query k w = (Inl (External m), w)
            \<and> search L self query k w \<noteq> (Inr empty_results, w)"
  using search_rejected [OF assms(1), of self query k w] by auto

text \<open>A search in the collection nothing was ever added to.\<close>

theorem search_on_empty_collection_raises_witness:
  "rejects_ids strict_libs \<and> colls world0 (collection_name stub_db) = []
   \<and> search strict_libs stub_db ''What color is the sky?'' 5 world0 =
       (Inl (External ''Expected include item to be one of documents, embeddings, metadatas, distances, uris, data, got ids''),
        world0)"
proof -
  have empty: "colls world0 (collection_name stub_db) = []"
    by (simp add: world0_def)
  from search_on_empty_collection_raises [OF rejects_ids_strict_libs empty,
         of "''What color is the sky?''" 5]
  obtain m where m: "search strict_libs stub_db ''What color is the sky?'' 5 world0 =
                       (Inl (External m), world0)"
    by blast
  then have "m = ''Expected include item to be one of documents, embeddings, metadatas, distances, uris, data, got ids''"
    by (simp add: search_def strict_libs_def nested_libs_def stub_libs_def stub_db_def ext_def)
  then show ?thesis using m empty rejects_ids_strict_libs by simp
qed

text \<open>
  C7. With a store that refuses the item \<^verbatim>\<open>ids\<close>, a search whose query embedding is
  the embedding of the only record in the collection raises the exception of the
  store: no record is returned, and no distance.
\<close>

theorem round_trip_search_raises:
  assumes "rejects_ids L"
    and "colls w (collection_name self) =
           [\<lparr>documents = [chunk], metadatas = [metadata], embeddings = v, ids = [chunk_id 0 0]\<rparr>]"
    and "encode L (embedding_model_name self) [query] = Inr v"
  shows "\<exists>m. search L self query k w = (Inl (External m), w)"
  using search_rejected [OF assms(1)] by blast

text \<open>
  One document of one chunk is added, and the text of the chunk is searched for: the
  query embedding is the stored one, and the search raises.
\<close>

theorem round_trip_search_raises_witness:
  "colls (snd (add_documents strict_libs stub_db [doc_sky] world0)) (collection_name stub_db) =
     [\<lparr>documents = [''The sky is blue. Grass is green.''], metadatas = [PDict []],
       embeddings = 1, ids = [chunk_id 0 0]\<rparr>]
   \<and> encode strict_libs (embedding_model_name stub_db) [''The sky is blue. Grass is green.''] = Inr 1
   \<and> fst (search strict_libs stub_db ''The sky is blue. Grass is green.'' 1
             (snd (add_documents strict_libs stub_db [doc_sky] world0))) =
       Inl (External ''Expected include item to be one of documents, embeddings, metadatas, distances, uris, data, got ids'')"
proof -
  have stored: "colls (snd (add_documents strict_libs stub_db [doc_sky] world0)) (collection_name stub_db) =
     [\<lparr>documents = [''The sky is blue. Grass is green.''], metadatas = [PDict []],
       embeddings = 1, ids = [chunk_id 0 0]\<rparr>]"
    by (simp add: add_documents_def add_documents_body_def chunk_text_def strict_libs_def
          nested_libs_def stub_libs_def stub_db_def doc_sky_def world0_def py_print_def ext_def Let_def)
  have embed: "encode strict_libs (embedding_model_name stub_db) [''The sky is blue. Grass is green.''] = Inr 1"
    by (simp add: strict_libs_def nested_libs_def stub_libs_def)
  from round_trip_search_raises [OF rejects_ids_strict_libs stored embed, of 1]
  obtain m where m: "search strict_libs stub_db ''The sky is blue. Grass is green.'' 1
             (snd (add_documents strict_libs stub_db [doc_sky] world0)) =
             (Inl (External m), snd (add_documents strict_libs stub_db [doc_sky] world0))"
    by blast
  then have "m = ''Expected include item to be one of documents, embeddings, metadatas, distances, uris, data, got ids''"
    by (simp add: search_def strict_libs_def nested_libs_def stub_libs_def stub_db_def ext_def)
  then show ?thesis using stored embed m by simp
qed

section \<open>Answering a question\<close>

lemma search_llm_chat: "search (L\<lparr>llm_chat := f\<rparr>) self query k w = search L self query k w"
  by (simp add: search_def cong: sum.case_cong)

lemma search_accepted:
  assumes "encode L (embedding_model_name self) [query] = Inr qe"
    and "collection_query L (collection_name self) (colls w (collection_name self)) qe k
           [''documents'', ''metadatas'', ''distances'', ''ids''] = Inr (Some results)"
    and "list_all (\<lambda>key. key \<in> set (map fst results)) result_keys"
  shows "search L self query k w = (Inr results, w)"
  using assms by (auto simp: search_def ext_def result_keys_def)

text \<open>
  C1. \<^verbatim>\<open>invoke\<close> does not reach the chat model. With a store that refuses the item
  \<^verbatim>\<open>ids\<close>, \<^verbatim>\<open>invoke\<close> raises the exception of the embedding model or of the store, the
  same whatever the chat model would reply. And when a store does answer, with the
  four keys and with \<^verbatim>\<open>documents\<close> bound to one list of texts for each query embedding
  (a list whose first element is a list), joining that value with newlines raises
  TypeError, again whatever the chat model would reply.
\<close>

theorem invoke_never_reaches_llm:
  "(rejects_ids L \<longrightarrow>
      (\<exists>m. \<forall>f. invoke (L\<lparr>llm_chat := f\<rparr>) self question k w = (Inl (External m), w)))
   \<and> (encode L (embedding_model_name (vector_db self)) [question] = Inr qe \<longrightarrow>
      collection_query L (collection_name (vector_db self))
        (colls w (collection_name (vector_db self))) qe k
        [''documents'', ''metadatas'', ''distances'', ''ids''] = Inr (Some results) \<longrightarrow>
      list_all (\<lambda>key. key \<in> set (map fst results)) result_keys \<longrightarrow>
      map_of results ''documents'' = Some (PList (PList texts # others)) \<longrightarrow>
      (\<exists>msg. \<forall>f. invoke (L\<lparr>llm_chat := f\<rparr>) self question k w = (Inl (TypeError msg), w)))"
proof (intro conjI impI)
  assume "rejects_ids L"
  then obtain m where m: "search L (vector_db self) question k w = (Inl (External m), w)"
    using search_rejected by blast
  have "search (L\<lparr>llm_chat := f\<rparr>) (vector_db self) question k w =
        search L (vector_db self) question k w" for f
    by (rule search_llm_chat)
  then show "\<exists>m. \<forall>f. invoke (L\<lparr>llm_chat := f\<rparr>) self question k w = (Inl (External m), w)"
    using m by (intro exI [of _ m]) (simp add: invoke_def)
next
  assume embed: "encode L (embedding_model_name (vector_db self)) [question] = Inr qe"
    and found: "collection_query L (collection_name (vector_db self))
        (colls w (collection_name (vector_db self))) qe k
        [''documents'', ''metadatas'', ''distances'', ''ids''] = Inr (Some results)"
    and keys: "list_all (\<lambda>key. key \<in> set (map fst results)) result_keys"
    and nested: "map_of results ''documents'' = Some (PList (PList texts # others))"
  have s: "search L (vector_db self) question k w = (Inr results, w)"
    using embed found keys by (rule search_accepted)
  have "search (L\<lparr>llm_chat := f\<rparr>) (vector_db self) question k w =
        search L (vector_db self) question k w" for f
    by (rule search_llm_chat)
  then show "\<exists>msg. \<forall>f. invoke (L\<lparr>llm_chat := f\<rparr>) self question k w = (Inl (TypeError msg), w)"
    using s nested
    by (intro exI [of _ "''sequence item: expected str instance''"])
       (simp add: invoke_def dict_get_def)
qed

text \<open>
  A collection holding two chunks and the question about the sky, with the store that
  refuses \<^verbatim>\<open>ids\<close> and with the one that only nests its answer.
\<close>

theorem invoke_never_reaches_llm_witness:
  "rejects_ids strict_libs
   \<and> invoke strict_libs stub_assistant ''What color is the sky?'' 3 world_sky =
       (Inl (External ''Expected include item to be one of documents, embeddings, metadatas, distances, uris, data, got ids''),
        world_sky)
   \<and> invoke nested_libs stub_assistant ''What color is the sky?'' 3 world_sky =
       (Inl (TypeError ''sequence item: expected str instance''), world_sky)"
proof -
  from invoke_never_reaches_llm [of strict_libs stub_assistant "''What color is the sky?''" 3 world_sky]
    rejects_ids_strict_libs
  obtain m where "\<forall>f. invoke (strict_libs\<lparr>llm_chat := f\<rparr>) stub_assistant
                        ''What color is the sky?'' 3 world_sky = (Inl (External m), world_sky)"
    by blast
  then have "invoke (strict_libs\<lparr>llm_chat := llm_chat strict_libs\<rparr>) stub_assistant
               ''What color is the sky?'' 3 world_sky = (Inl (External m), world_sky)"
    by blast
  then have strict: "invoke strict_libs stub_assistant ''What color is the sky?'' 3 world_sky =
                       (Inl (External m), world_sky)"
    by simp
  then have "m = ''Expected include item to be one of documents, embeddings, metadatas, distances, uris, data, got ids''"
    by (simp add: invoke_def search_def strict_libs_def nested_libs_def stub_libs_def
          stub_assistant_def stub_db_def ext_def)
  moreover have "invoke nested_libs stub_assistant ''What color is the sky?'' 3 world_sky =
       (Inl (TypeError ''sequence item: expected str instance''), world_sky)"
    by (simp add: invoke_def search_def nested_libs_def stub_libs_def stub_assistant_def
          stub_db_def world_sky_def ext_def dict_get_def result_keys_def)
  ultimately show ?thesis using strict rejects_ids_strict_libs by simp
qed

end
